theory Spec2Isabelle
  imports Complex_Main
begin

section \<open>Values of the configuration tree\<close>

text \<open>
  The configuration held in \<^verbatim>\<open>Settings._cfg\<close> is whatever \<^verbatim>\<open>yaml.load\<close> returns or
  \<^verbatim>\<open>Settings.default\<close> builds: nested Python dictionaries with string keys, scalars, and
  (from YAML) lists and the null value. A dictionary is an association list; a Python
  dictionary has every key once, which is the predicate \<open>distinct_keys\<close> below. The order of the
  list stands for the iteration order of the dictionary.
\<close>

datatype pyval =
    PNone
  | PBool bool
  | PInt int
  | PFloat real
  | PStr string
  | PList "pyval list"
  | PDict "(string \<times> pyval) list"

text \<open>The exceptions the code can raise.\<close>

datatype pyerr =
    KeyError string
  | TypeError
  | AttributeError
  | ReadOnly string   \<comment> \<open>\<^verbatim>\<open>Exception('%s is a read only parameter!' % param_name)\<close>\<close>
  | IOError
  | YAMLError
  | ValueError

text \<open>Python's truth value of an object, as \<^verbatim>\<open>if x:\<close> tests it.\<close>

fun truthy :: "pyval \<Rightarrow> bool" where
  "truthy PNone = False"
| "truthy (PBool b) = b"
| "truthy (PInt i) = (i \<noteq> 0)"
| "truthy (PFloat r) = (r \<noteq> 0)"
| "truthy (PStr s) = (s \<noteq> [])"
| "truthy (PList xs) = (xs \<noteq> [])"
| "truthy (PDict kvs) = (kvs \<noteq> [])"

text \<open>\<^verbatim>\<open>isinstance(x, dict)\<close>.\<close>

fun is_dict :: "pyval \<Rightarrow> bool" where
  "is_dict (PDict kvs) = True"
| "is_dict _ = False"

text \<open>
  \<^verbatim>\<open>x[key]\<close> with a string key: a dictionary raises KeyError on a missing key; every other
  value of the tree (null, boolean, number, string, list) raises TypeError on a string
  subscript.
\<close>

fun subscript :: "pyval \<Rightarrow> string \<Rightarrow> pyerr + pyval" where
  "subscript (PDict kvs) key =
     (case map_of kvs key of None \<Rightarrow> Inl (KeyError key) | Some v \<Rightarrow> Inr v)"
| "subscript _ key = Inl TypeError"

text \<open>\<^verbatim>\<open>d[key] = v\<close> on a dictionary: an existing key keeps its place, a new key is added.\<close>

fun dict_set :: "string \<Rightarrow> pyval \<Rightarrow> (string \<times> pyval) list \<Rightarrow> (string \<times> pyval) list" where
  "dict_set key v [] = [(key, v)]"
| "dict_set key v ((k, x) # kvs) =
     (if k = key then (k, v) # kvs else (k, x) # dict_set key v kvs)"

section \<open>Read-only test and recursive merge\<close>

text \<open>
  \<^verbatim>\<open>
  def _is_writable(self, value):
      if ':ro' in value:
          return value[':ro']
      return True
  \<close>
  The result is the stored object itself; callers test its truth value.
\<close>

definition is_writable :: "(string \<times> pyval) list \<Rightarrow> pyval" where
  "is_writable value =
     (case map_of value '':ro'' of Some r \<Rightarrow> r | None \<Rightarrow> PBool True)"

definition marker_keys :: "string list" where
  "marker_keys = ['':hint'', '':default'', '':ro'', '':min'', '':max'']"

text \<open>
  \<^verbatim>\<open>
  def _apply_recursive(self, new_data, curr_value):
      new_cfg = dict()
      for key, value in curr_value.items():
          try:
              if isinstance(value, dict):
                  if self._is_writable(value):
                      new_cfg[key] = self._apply_recursive(new_data[key], value)
              elif key not in [':hint', ':default', ':ro', ':min', ':max']:
                  if isinstance(new_data, dict):
                      new_cfg[key] = new_data[key]
                  else:
                      new_cfg[key] = new_data
              else:
                  new_cfg[key] = value
          except Exception:
              new_cfg[key] = value
      return new_cfg
  \<close>
  \<open>apply_items\<close> is the loop: the entries it returns are the assignments to
  \<^verbatim>\<open>new_cfg\<close>, in iteration order (the keys of a dictionary are distinct, so each
  assignment adds an entry). A dictionary that is not writable gets no assignment.
  \<^verbatim>\<open>curr_value.items()\<close> on anything but a dictionary raises AttributeError, outside the
  \<^verbatim>\<open>try\<close>.
\<close>

fun apply_recursive :: "pyval \<Rightarrow> pyval \<Rightarrow> pyerr + pyval"
  and apply_items :: "pyval \<Rightarrow> (string \<times> pyval) list \<Rightarrow> (string \<times> pyval) list" where
  "apply_recursive new_data (PDict kvs) = Inr (PDict (apply_items new_data kvs))"
| "apply_recursive new_data PNone = Inl AttributeError"
| "apply_recursive new_data (PBool b) = Inl AttributeError"
| "apply_recursive new_data (PInt i) = Inl AttributeError"
| "apply_recursive new_data (PFloat r) = Inl AttributeError"
| "apply_recursive new_data (PStr s) = Inl AttributeError"
| "apply_recursive new_data (PList xs) = Inl AttributeError"
| "apply_items new_data [] = []"
| "apply_items new_data ((key, PDict value) # rest) =
     (if truthy (is_writable value) then
        (case subscript new_data key of
           Inl e \<Rightarrow> [(key, PDict value)]
         | Inr nd \<Rightarrow>
             (case apply_recursive nd (PDict value) of
                Inl e \<Rightarrow> [(key, PDict value)]
              | Inr r \<Rightarrow> [(key, r)]))
      else [])
     @ apply_items new_data rest"
| "apply_items new_data ((key, value) # rest) =
     (if key \<notin> set marker_keys then
        (if is_dict new_data then
           (case subscript new_data key of
              Inl e \<Rightarrow> [(key, value)]
            | Inr x \<Rightarrow> [(key, x)])
         else [(key, new_data)])
      else [(key, value)])
     @ apply_items new_data rest"

section \<open>The store and its surroundings\<close>

text \<open>
  The \<^verbatim>\<open>Settings\<close> object. Callbacks are compared by identity in the source; here a
  callback is its identity, a number, and calling it is recorded as an event.
\<close>

record settings =
  version :: string
  filename :: string
  cfg :: pyval
  reload_callbacks :: "nat list"

text \<open>
  PyYAML is a library outside the repository. A text is identified with what
  \<^verbatim>\<open>yaml.load\<close> makes of it: \<open>Parses v\<close> is a text that loads as \<open>v\<close>, \<open>Malformed\<close>
  one on which \<^verbatim>\<open>yaml.load\<close> raises \<^verbatim>\<open>yaml.YAMLError\<close>, and \<open>Invalid_value\<close> one on
  which it raises an exception that is no \<^verbatim>\<open>yaml.YAMLError\<close>: the constructors of
  scalars raise ValueError on a text such as \<^verbatim>\<open>date: 2019-02-30\<close>. \<^verbatim>\<open>yaml.dump v\<close> is
  taken to produce \<open>Parses v\<close>; the empty text loads as the null value, so it is
  \<open>Parses PNone\<close>.
\<close>

datatype yaml_text = Parses pyval | Malformed | Invalid_value

datatype event =
    Printed pyerr              \<comment> \<open>\<^verbatim>\<open>print exc\<close>\<close>
  | Log_loaded                 \<comment> \<open>\<^verbatim>\<open>rospy.loginfo('loaded configuration from ...')\<close>\<close>
  | Log_use_default pyerr      \<comment> \<open>\<^verbatim>\<open>rospy.loginfo('%s: use default configuration!')\<close>\<close>
  | Log_reset                  \<comment> \<open>\<^verbatim>\<open>rospy.loginfo("Reset configuration requested!")\<close>\<close>
  | Log_applied                \<comment> \<open>\<^verbatim>\<open>rospy.logdebug("new configuration applied, save now.")\<close>\<close>
  | Log_saved                  \<comment> \<open>\<^verbatim>\<open>rospy.logdebug("Configuration saved to ...")\<close>\<close>
  | Log_cant_save pyerr        \<comment> \<open>\<^verbatim>\<open>rospy.logwarn("Cant't save configuration to ...")\<close>\<close>
  | Called nat pyval           \<comment> \<open>\<^verbatim>\<open>callback(self)\<close>, with the tree the callback finds\<close>

text \<open>
  Everything outside the object: the files that can be opened for reading and what they
  hold (\<open>None\<close>: \<^verbatim>\<open>open(name, 'r')\<close> raises IOError), whether \<^verbatim>\<open>open(name, 'w')\<close>,
  \<^verbatim>\<open>stream.write\<close> and the closing of the written file succeed (each raises IOError
  otherwise), on which trees \<^verbatim>\<open>yaml.dump\<close> raises \<^verbatim>\<open>yaml.YAMLError\<close>, the module
  constant \<^verbatim>\<open>LOG_PATH\<close>, and what has been printed, logged and called so far.
\<close>

record world =
  files :: "string \<rightharpoonup> yaml_text"
  can_open_w :: "string \<Rightarrow> bool"
  can_write :: "string \<Rightarrow> bool"
  can_close :: "string \<Rightarrow> bool"
  dump_raises :: "pyval \<Rightarrow> bool"
  LOG_PATH :: string
  events :: "event list"

definition emit :: "event list \<Rightarrow> world \<Rightarrow> world" where
  "emit es w = w\<lparr>events := events w @ es\<rparr>"

text \<open>\<^verbatim>\<open>Settings.default\<close>, lines 66 to 102.\<close>

definition default_cfg :: "string \<Rightarrow> settings \<Rightarrow> pyval" where
  "default_cfg log_path s = PDict [
     (''global'', PDict [
        (''version'', PDict [('':value'', PStr (version s)), ('':ro'', PBool True)]),
        (''file'', PDict [('':value'', PStr (filename s)), ('':ro'', PBool True)]),
        (''grpc_timeout'', PDict [('':value'', PFloat 15), ('':min'', PInt 0),
           ('':default'', PFloat 15),
           ('':hint'', PStr ''timeout for connection to remote gRPC-server'')]),
        (''only_diagnostics_agg'', PBool False),
        (''reset'', PBool False)]),
     (''sysmon'', PDict [
        (''CPU'', PDict [(''load_warn_level'', PFloat (9 / 10))]),
        (''Disk'', PDict [
           (''usage_warn_level'', PDict [('':value'', PInt 100), ('':default'', PFloat 100),
              ('':hint'', PStr ''values in MB'')]),
           (''path'', PStr log_path)]),
        (''Memory'', PDict [
           (''usage_warn_level'', PDict [('':value'', PInt 100), ('':default'', PFloat 100),
              ('':hint'', PStr ''values in MB'')])]),
        (''Network'', PDict [
           (''load_warn_level'', PDict [('':value'', PFloat (9 / 10)),
              ('':default'', PFloat (9 / 10)),
              ('':hint'', PStr ''Percent of the maximum speed'')]),
           (''speed'', PDict [('':value'', PInt 6), ('':default'', PInt 6),
              ('':hint'', PStr ''Maximal speed in MBit'')]),
           (''interface'', PStr [])])])]"

section \<open>Paths\<close>

text \<open>\<^verbatim>\<open>str.split('/')\<close>: the pieces between slashes, empty pieces included.\<close>

fun str_split :: "string \<Rightarrow> string list" where
  "str_split [] = [[]]"
| "str_split (c # cs) =
     (if c = CHR ''/'' then [] # str_split cs
      else (case str_split cs of [] \<Rightarrow> [[c]] | w # ws \<Rightarrow> (c # w) # ws))"

text \<open>
  \<^verbatim>\<open>os.path.basename\<close> and \<^verbatim>\<open>os.path.dirname\<close> of the POSIX path module: what follows
  the last slash, and what precedes it, with trailing slashes stripped unless it is made
  of slashes only.
\<close>

definition basename :: "string \<Rightarrow> string" where
  "basename p = rev (takeWhile (\<lambda>c. c \<noteq> CHR ''/'') (rev p))"

definition dirname :: "string \<Rightarrow> string" where
  "dirname p =
     (let head = rev (dropWhile (\<lambda>c. c \<noteq> CHR ''/'') (rev p))
      in if head \<noteq> [] \<and> \<not> list_all (\<lambda>c. c = CHR ''/'') head
         then rev (dropWhile (\<lambda>c. c = CHR ''/'') (rev head))
         else head)"

section \<open>Reading a parameter\<close>

text \<open>
  \<^verbatim>\<open>
  def param(self, param_name, default_value=None, extract_value=True):
      result = default_value
      try:
          path = param_name.split('/')
          value = self._cfg
          for item in path:
              value = value[item]
          if isinstance(value, dict):
              if extract_value and ':value' in value:
                  result = value[':value']
              else:
                  result = value
          else:
              result = value
      except Exception as exc:
          print exc
      return result
  \<close>
  \<open>param_try\<close> is the body of the \<^verbatim>\<open>try\<close>; \<open>param\<close> is the value returned and
  \<open>param_prints\<close> what the handler prints.
\<close>

fun walk :: "pyval \<Rightarrow> string list \<Rightarrow> pyerr + pyval" where
  "walk value [] = Inr value"
| "walk value (item # path) =
     (case subscript value item of Inl e \<Rightarrow> Inl e | Inr v \<Rightarrow> walk v path)"

definition param_try :: "settings \<Rightarrow> string \<Rightarrow> bool \<Rightarrow> pyerr + pyval" where
  "param_try s param_name extract_value =
     (case walk (cfg s) (str_split param_name) of
        Inl e \<Rightarrow> Inl e
      | Inr value \<Rightarrow>
          (case value of
             PDict d \<Rightarrow>
               (if extract_value \<and> map_of d '':value'' \<noteq> None
                then subscript value '':value'' else Inr value)
           | _ \<Rightarrow> Inr value))"

definition param :: "settings \<Rightarrow> string \<Rightarrow> pyval \<Rightarrow> bool \<Rightarrow> pyval" where
  "param s param_name default_value extract_value =
     (case param_try s param_name extract_value of
        Inl e \<Rightarrow> default_value | Inr r \<Rightarrow> r)"

definition param_prints :: "settings \<Rightarrow> string \<Rightarrow> bool \<Rightarrow> event list" where
  "param_prints s param_name extract_value =
     (case param_try s param_name extract_value of
        Inl e \<Rightarrow> [Printed e] | Inr r \<Rightarrow> [])"

section \<open>Saving\<close>

text \<open>
  \<^verbatim>\<open>
  def save(self):
      with open(self.filename, 'w') as stream:
          try:
              stream.write(yaml.dump(self._cfg))
              rospy.logdebug("Configuration saved to '%s'" % self.filename)
          except yaml.YAMLError as exc:
              rospy.logwarn("Cant't save configuration to '%s': %s" % (self.filename, utf8(exc)))
  \<close>
  Opening for writing is outside the \<^verbatim>\<open>try\<close> and empties the file; the handler catches
  \<^verbatim>\<open>yaml.YAMLError\<close> only. The result is the new world and the exception that leaves
  \<^verbatim>\<open>save\<close>, if any. A write can fail at two places. \<^verbatim>\<open>stream.write\<close> itself raises
  IOError when it has to hand the data to the device at once and the device refuses
  them; the log line is then not reached. Otherwise \<^verbatim>\<open>stream.write\<close> only fills the
  buffer, the line "Configuration saved" is logged, and the IOError is raised when the
  \<^verbatim>\<open>with\<close> block closes the file and the buffer is written. When \<^verbatim>\<open>yaml.dump\<close> has
  raised, nothing is buffered and closing the file succeeds. A write that fails is taken
  to have written nothing.
\<close>

definition save :: "settings \<Rightarrow> world \<Rightarrow> world \<times> pyerr option" where
  "save s w =
     (if \<not> can_open_w w (filename s) then (w, Some IOError)
      else
        let w1 = w\<lparr>files := (files w)(filename s \<mapsto> Parses PNone)\<rparr>
        in if dump_raises w (cfg s) then (emit [Log_cant_save YAMLError] w1, None)
           else if \<not> can_write w (filename s) then (w1, Some IOError)
           else if \<not> can_close w (filename s) then (emit [Log_saved] w1, Some IOError)
           else (emit [Log_saved] (w\<lparr>files := (files w)(filename s \<mapsto> Parses (cfg s))\<rparr>), None))"

section \<open>Setting one parameter\<close>

text \<open>
  \<^verbatim>\<open>
  def set_param(self, param_name, value):
      try:
          path = os.path.dirname(param_name).split('/')
          cfg_item = self._cfg
          for item in path:
              if item:
                  if item in cfg_item:
                      cfg_item = cfg_item[item]
                  else:
                      cfg_item[item] = {}
                      cfg_item = cfg_item[item]
          pname = os.path.basename(param_name)
          if pname in cfg_item:
              if isinstance(cfg_item[pname], dict):
                  if self._is_writable(cfg_item[pname]):
                      cfg_item[pname][':value'] = value
                  else:
                      raise Exception('%s is a read only parameter!' % param_name)
              else:
                  cfg_item[pname] = value
          else:
              # create new parameter entry
              cfg_item[pname] = {':value': value}
          self.save()
      except Exception as exc:
          print exc
  \<close>
  The tree is mutated in place while the path is walked, so the walk returns the tree as
  it stands together with the exception raised, if any. On a \<^verbatim>\<open>cfg_item\<close> that is not a
  dictionary, \<^verbatim>\<open>item in cfg_item\<close> followed by the subscript or the item assignment
  raises TypeError in every case (null, boolean, number, string, list) before anything
  is changed.
\<close>

fun set_leaf :: "string \<Rightarrow> string \<Rightarrow> pyval \<Rightarrow> pyval \<Rightarrow> pyval \<times> pyerr option" where
  "set_leaf param_name pname value (PDict d) =
     (case map_of d pname of
        Some (PDict leaf) \<Rightarrow>
          (if truthy (is_writable leaf)
           then (PDict (dict_set pname (PDict (dict_set '':value'' value leaf)) d), None)
           else (PDict d, Some (ReadOnly param_name)))
      | Some other \<Rightarrow> (PDict (dict_set pname value d), None)
      | None \<Rightarrow> (PDict (dict_set pname (PDict [('':value'', value)]) d), None))"
| "set_leaf param_name pname value cfg_item = (cfg_item, Some TypeError)"

fun set_walk :: "string list \<Rightarrow> string \<Rightarrow> string \<Rightarrow> pyval \<Rightarrow> pyval \<Rightarrow> pyval \<times> pyerr option" where
  "set_walk [] param_name pname value cfg_item = set_leaf param_name pname value cfg_item"
| "set_walk (item # path) param_name pname value cfg_item =
     (if item = [] then set_walk path param_name pname value cfg_item
      else
        (case cfg_item of
           PDict d \<Rightarrow>
             (case map_of d item of
                Some sub \<Rightarrow>
                  (case set_walk path param_name pname value sub of
                     (sub', r) \<Rightarrow> (PDict (dict_set item sub' d), r))
              | None \<Rightarrow>
                  (case set_walk path param_name pname value (PDict []) of
                     (sub', r) \<Rightarrow> (PDict (dict_set item sub' d), r)))
         | _ \<Rightarrow> (cfg_item, Some TypeError)))"

definition set_param :: "settings \<Rightarrow> world \<Rightarrow> string \<Rightarrow> pyval \<Rightarrow> settings \<times> world" where
  "set_param s w param_name value =
     (case set_walk (str_split (dirname param_name)) param_name (basename param_name)
             value (cfg s) of
        (c, Some e) \<Rightarrow> (s\<lparr>cfg := c\<rparr>, emit [Printed e] w)
      | (c, None) \<Rightarrow>
          (case save (s\<lparr>cfg := c\<rparr>) w of
             (w', Some e) \<Rightarrow> (s\<lparr>cfg := c\<rparr>, emit [Printed e] w')
           | (w', None) \<Rightarrow> (s\<lparr>cfg := c\<rparr>, w')))"

section \<open>Listeners, reload and apply\<close>

text \<open>
  \<^verbatim>\<open>
  def add_reload_listener(self, callback, call=True):
      with self._mutex:
          if callback not in self._reload_callbacks:
              self._reload_callbacks.append(callback)
              if call:
                  callback(self)

  def _notify_reload_callbacks(self):
      with self._mutex:
          for callback in self._reload_callbacks:
              callback(self)
  \<close>
  A callback is taken to return without raising and without touching the store.
\<close>

definition add_reload_listener :: "settings \<Rightarrow> world \<Rightarrow> nat \<Rightarrow> bool \<Rightarrow> settings \<times> world" where
  "add_reload_listener s w callback call =
     (if callback \<notin> set (reload_callbacks s)
      then (s\<lparr>reload_callbacks := reload_callbacks s @ [callback]\<rparr>,
            if call then emit [Called callback (cfg s)] w else w)
      else (s, w))"

definition notify_reload_callbacks :: "settings \<Rightarrow> world \<Rightarrow> world" where
  "notify_reload_callbacks s w =
     emit (map (\<lambda>callback. Called callback (cfg s)) (reload_callbacks s)) w"

text \<open>
  \<^verbatim>\<open>
  def reload(self):
      with self._mutex:
          try:
              with open(self.filename, 'r') as stream:
                  result = yaml.load(stream)
                  rospy.loginfo('loaded configuration from %s' % self.filename)
                  self._cfg = result
          except (yaml.YAMLError, IOError) as exc:
              rospy.loginfo('%s: use default configuration!' % utf8(exc))
              self._cfg = self.default()
          self._notify_reload_callbacks()
  \<close>
  The handler names \<^verbatim>\<open>yaml.YAMLError\<close> and IOError only: an exception of another class
  raised by \<^verbatim>\<open>yaml.load\<close> leaves \<^verbatim>\<open>reload\<close> before a tree is installed and before the
  listeners are notified. The third component of the result is the exception that
  leaves \<^verbatim>\<open>reload\<close>, if any.
\<close>

definition reload :: "settings \<Rightarrow> world \<Rightarrow> settings \<times> world \<times> pyerr option" where
  "reload s w =
     (case files w (filename s) of
        Some (Parses result) \<Rightarrow>
          (s\<lparr>cfg := result\<rparr>,
           notify_reload_callbacks (s\<lparr>cfg := result\<rparr>) (emit [Log_loaded] w), None)
      | Some Malformed \<Rightarrow>
          (s\<lparr>cfg := default_cfg (LOG_PATH w) s\<rparr>,
           notify_reload_callbacks (s\<lparr>cfg := default_cfg (LOG_PATH w) s\<rparr>)
             (emit [Log_use_default YAMLError] w), None)
      | Some Invalid_value \<Rightarrow> (s, w, Some ValueError)
      | None \<Rightarrow>
          (s\<lparr>cfg := default_cfg (LOG_PATH w) s\<rparr>,
           notify_reload_callbacks (s\<lparr>cfg := default_cfg (LOG_PATH w) s\<rparr>)
             (emit [Log_use_default IOError] w), None))"

text \<open>
  \<^verbatim>\<open>
  def apply(self, data):
      with self._mutex:
          self._cfg = self._apply_recursive(yaml.load(data), self._cfg)
          do_reset = self.param('global/reset', False)
          if do_reset:
              rospy.loginfo("Reset configuration requested!")
              self._cfg = self.default()
          else:
              rospy.logdebug("new configuration applied, save now.")
          self.save()
          self._notify_reload_callbacks()
  \<close>
  No exception is caught here: the third component of the result is the exception that
  leaves \<^verbatim>\<open>apply\<close>, if any.
\<close>

definition apply_yaml :: "settings \<Rightarrow> world \<Rightarrow> yaml_text \<Rightarrow> settings \<times> world \<times> pyerr option" where
  "apply_yaml s w data =
     (case data of
        Malformed \<Rightarrow> (s, w, Some YAMLError)
      | Invalid_value \<Rightarrow> (s, w, Some ValueError)
      | Parses new_data \<Rightarrow>
          (case apply_recursive new_data (cfg s) of
             Inl e \<Rightarrow> (s, w, Some e)
           | Inr merged \<Rightarrow>
               (let s1 = s\<lparr>cfg := merged\<rparr>;
                    w1 = emit (param_prints s1 ''global/reset'' True) w;
                    do_reset = param s1 ''global/reset'' (PBool False) True;
                    s2 = (if truthy do_reset then s1\<lparr>cfg := default_cfg (LOG_PATH w) s1\<rparr> else s1);
                    w2 = emit [if truthy do_reset then Log_reset else Log_applied] w1
                in case save s2 w2 of
                     (w3, Some e) \<Rightarrow> (s2, w3, Some e)
                   | (w3, None) \<Rightarrow> (s2, notify_reload_callbacks s2 w3, None))))"

section \<open>Notions used to state the properties\<close>

text \<open>The identities of the callbacks called, in the order of the calls.\<close>

fun called :: "event list \<Rightarrow> nat list" where
  "called [] = []"
| "called (Called callback c # es) = callback # called es"
| "called (e # es) = called es"

text \<open>
  The node \<^verbatim>\<open>set_param\<close> finds at a parameter name: the walk of its loop (empty path
  items are skipped, every other item must be a key of the dictionary reached so far),
  then the entry \<^verbatim>\<open>pname\<close> of the dictionary the walk ends in.
\<close>

fun lookup_path :: "pyval \<Rightarrow> string list \<Rightarrow> pyval option" where
  "lookup_path cfg_item [] = Some cfg_item"
| "lookup_path cfg_item (item # path) =
     (if item = [] then lookup_path cfg_item path
      else
        (case cfg_item of
           PDict d \<Rightarrow>
             (case map_of d item of Some sub \<Rightarrow> lookup_path sub path | None \<Rightarrow> None)
         | _ \<Rightarrow> None))"

definition existing_node :: "pyval \<Rightarrow> string \<Rightarrow> pyval option" where
  "existing_node c param_name =
     (case lookup_path c (str_split (dirname param_name)) of
        Some (PDict d) \<Rightarrow> map_of d (basename param_name)
      | _ \<Rightarrow> None)"

text \<open>The keys of the dictionary found at a level of a tree; no keys where there is none.\<close>

definition keys_at :: "pyval \<Rightarrow> string list \<Rightarrow> string set" where
  "keys_at t path = (case walk t path of Inr (PDict d) \<Rightarrow> set (map fst d) | _ \<Rightarrow> {})"

text \<open>
  A tree of Python dictionaries: at every dictionary reached through dictionaries, each
  key occurs once.
\<close>

fun distinct_keys :: "pyval \<Rightarrow> bool"
  and distinct_items :: "(string \<times> pyval) list \<Rightarrow> bool" where
  "distinct_keys (PDict kvs) = (distinct (map fst kvs) \<and> distinct_items kvs)"
| "distinct_keys PNone = True"
| "distinct_keys (PBool b) = True"
| "distinct_keys (PInt i) = True"
| "distinct_keys (PFloat r) = True"
| "distinct_keys (PStr s) = True"
| "distinct_keys (PList xs) = True"
| "distinct_items [] = True"
| "distinct_items ((key, value) # rest) = (distinct_keys value \<and> distinct_items rest)"

text \<open>
  Every dictionary below the root, reached through dictionaries, passes the test the
  merge makes before it descends: \<^verbatim>\<open>if self._is_writable(value)\<close>.
\<close>

fun writable_below :: "pyval \<Rightarrow> bool"
  and writable_items :: "(string \<times> pyval) list \<Rightarrow> bool" where
  "writable_below (PDict kvs) = writable_items kvs"
| "writable_below PNone = True"
| "writable_below (PBool b) = True"
| "writable_below (PInt i) = True"
| "writable_below (PFloat r) = True"
| "writable_below (PStr s) = True"
| "writable_below (PList xs) = True"
| "writable_items [] = True"
| "writable_items ((key, PDict value) # rest) =
     (truthy (is_writable value) \<and> writable_below (PDict value) \<and> writable_items rest)"
| "writable_items ((key, value) # rest) = writable_items rest"

text \<open>A tree with the value at one path replaced and nothing else touched.\<close>

primrec replace_at :: "string list \<Rightarrow> pyval \<Rightarrow> pyval \<Rightarrow> pyval" where
  "replace_at [] x t = x"
| "replace_at (key # path) x t =
     (case t of
        PDict d \<Rightarrow>
          PDict (map (\<lambda>kv. if fst kv = key then (fst kv, replace_at path x (snd kv)) else kv) d)
      | _ \<Rightarrow> t)"

subsection \<open>Concrete stores and surroundings\<close>

definition s_init :: settings where
  "s_init = \<lparr>version = ''1.0'', filename = ''nmd.yaml'', cfg = PNone, reload_callbacks = []\<rparr>"

definition s_default :: settings where
  "s_default = s_init\<lparr>cfg := default_cfg ''/log/'' s_init\<rparr>"

definition w_ok :: world where
  "w_ok = \<lparr>files = Map.empty, can_open_w = (\<lambda>f. True), can_write = (\<lambda>f. True),
           can_close = (\<lambda>f. True), dump_raises = (\<lambda>t. False), LOG_PATH = ''/log/'', events = []\<rparr>"

definition w_unwritable :: world where
  "w_unwritable = w_ok\<lparr>can_open_w := (\<lambda>f. False)\<rparr>"



definition w_close_fails :: world where
  "w_close_fails = w_ok\<lparr>can_close := (\<lambda>f. False)\<rparr>"

definition s_reset :: settings where
  "s_reset = s_init\<lparr>cfg := PDict [(''global'', PDict [(''reset'', PBool True)])]\<rparr>"

definition s_two :: settings where
  "s_two = s_default\<lparr>reload_callbacks := [7]\<rparr>"

definition w_empty_file :: world where
  "w_empty_file = w_ok\<lparr>files := [''nmd.yaml'' \<mapsto> Parses PNone]\<rparr>"

definition w_malformed_file :: world where
  "w_malformed_file = w_ok\<lparr>files := [''nmd.yaml'' \<mapsto> Malformed]\<rparr>"

definition w_invalid_file :: world where
  "w_invalid_file = w_ok\<lparr>files := [''nmd.yaml'' \<mapsto> Invalid_value]\<rparr>"

text \<open>The default store after \<^verbatim>\<open>set_param('global/version/:ro', False)\<close>.\<close>

definition s_version_unlocked :: settings where
  "s_version_unlocked = fst (set_param s_default w_ok ''global/version/:ro'' (PBool False))"

text \<open>The default store with callback 3 registered with immediate invocation, where the
  file cannot be opened for writing, and the world that registration leaves.\<close>

definition s_listening :: settings where
  "s_listening = fst (add_reload_listener s_default w_unwritable 3 True)"

definition w_listening :: world where
  "w_listening = snd (add_reload_listener s_default w_unwritable 3 True)"

text \<open>The payload of the scenario that sets \<^verbatim>\<open>global/grpc_timeout\<close> and nothing else.\<close>

definition timeout_payload :: "pyval \<Rightarrow> pyval" where
  "timeout_payload x = PDict [(''global'', PDict [(''grpc_timeout'', x)])]"

text \<open>A payload that asks for a reset and sets another field, and what the merge makes
  of it on the default tree.\<close>

definition reset_payload :: pyval where
  "reset_payload =
     PDict [(''global'', PDict [(''grpc_timeout'', PFloat 1), (''reset'', PBool True)])]"

definition reset_merged :: pyval where
  "reset_merged = replace_at [''global'', ''reset''] (PBool True)
     (replace_at [''global'', ''grpc_timeout'', '':value''] (PFloat 1) (cfg s_default))"

section \<open>Lemmas on dictionaries and on the merge\<close>

lemma dict_set_same: "map_of d k = Some v \<Longrightarrow> dict_set k v d = d"
  by (induction d) (auto split: if_splits)

lemma default_cfg_cfg_update [simp]: "default_cfg lp (s\<lparr>cfg := c\<rparr>) = default_cfg lp s"
  by (simp add: default_cfg_def)

lemma apply_items_Cons: "apply_items nd (kv # rest) = apply_items nd [kv] @ apply_items nd rest"
  by (cases kv; cases "snd kv") auto

lemma apply_items_single_keys: "fst ` set (apply_items nd [(key, value)]) \<subseteq> {key}"
  by (cases "value") (auto split: sum.splits if_splits)

lemma apply_items_keys: "fst ` set (apply_items nd kvs) \<subseteq> fst ` set kvs"
proof (induction kvs)
  case Nil
  then show ?case by simp
next
  case (Cons kv kvs)
  obtain key "value" where kv: "kv = (key, value)" by (cases kv)
  have "fst ` set (apply_items nd (kv # kvs))
      = fst ` set (apply_items nd [kv]) \<union> fst ` set (apply_items nd kvs)"
    by (subst apply_items_Cons) (simp add: image_Un)
  with Cons apply_items_single_keys [of nd key "value"] kv show ?case by auto
qed

text \<open>Each entry of the current tree is merged on its own: leaving one key out of the
  current tree leaves it out of the result and changes nothing else.\<close>

lemma apply_items_filter:
  "apply_items nd (filter (\<lambda>kv. fst kv \<noteq> key) kvs)
     = filter (\<lambda>kv. fst kv \<noteq> key) (apply_items nd kvs)"
proof (induction kvs)
  case Nil
  then show ?case by simp
next
  case (Cons kv kvs)
  obtain k v where kv: "kv = (k, v)" by (cases kv)
  have single: "filter (\<lambda>kv. fst kv \<noteq> key) (apply_items nd [(k, v)])
       = (if k = key then [] else apply_items nd [(k, v)])"
    using apply_items_single_keys [of nd k v]
    by (auto simp: filter_empty_conv filter_id_conv)
  have rhs: "filter (\<lambda>kv. fst kv \<noteq> key) (apply_items nd (kv # kvs))
      = filter (\<lambda>kv. fst kv \<noteq> key) (apply_items nd [(k, v)])
        @ filter (\<lambda>kv. fst kv \<noteq> key) (apply_items nd kvs)"
    unfolding kv by (subst apply_items_Cons) simp
  show ?case
  proof (cases "k = key")
    case True
    with Cons.IH kv single rhs show ?thesis by simp
  next
    case False
    have "apply_items nd (filter (\<lambda>kv. fst kv \<noteq> key) (kv # kvs))
        = apply_items nd ((k, v) # filter (\<lambda>kv. fst kv \<noteq> key) kvs)"
      using False kv by simp
    also have "\<dots> = apply_items nd [(k, v)] @ apply_items nd (filter (\<lambda>kv. fst kv \<noteq> key) kvs)"
      by (rule apply_items_Cons)
    finally show ?thesis using False Cons.IH single rhs by simp
  qed
qed

text \<open>What the result holds under a key depends on the entry of that key alone.\<close>

lemma map_of_apply_items:
  "distinct (map fst kvs) \<Longrightarrow>
   map_of (apply_items nd kvs) k =
     (case map_of kvs k of None \<Rightarrow> None | Some v \<Rightarrow> map_of (apply_items nd [(k, v)]) k)"
proof (induction kvs)
  case Nil
  then show ?case by simp
next
  case (Cons kv kvs)
  obtain key "value" where kv: "kv = (key, value)" by (cases kv)
  from Cons.prems kv have notin: "key \<notin> fst ` set kvs" and dist: "distinct (map fst kvs)" by auto
  have split: "map_of (apply_items nd (kv # kvs)) k =
      (case map_of (apply_items nd [(key, value)]) k of
         Some r \<Rightarrow> Some r | None \<Rightarrow> map_of (apply_items nd kvs) k)"
    by (subst apply_items_Cons) (simp add: kv map_add_def split: option.splits)
  show ?case
  proof (cases "k = key")
    case True
    from notin apply_items_keys [of nd kvs] have "key \<notin> fst ` set (apply_items nd kvs)" by auto
    then have "map_of (apply_items nd kvs) key = None" by (simp add: map_of_eq_None_iff)
    with True split kv show ?thesis by (simp split: option.splits)
  next
    case False
    with apply_items_single_keys [of nd key "value"]
    have "k \<notin> fst ` set (apply_items nd [(key, value)])" by auto
    then have "map_of (apply_items nd [(key, value)]) k = None" by (simp add: map_of_eq_None_iff)
    with False split kv Cons.IH [OF dist] show ?thesis by simp
  qed
qed

lemma distinct_items_lookup:
  "distinct_items kvs \<Longrightarrow> map_of kvs k = Some v \<Longrightarrow> distinct_keys v"
  by (induction kvs) (auto split: if_splits)

lemma walk_not_dict: "\<not> is_dict v \<Longrightarrow> walk v path = Inr (PDict d) \<Longrightarrow> False"
  by (cases path; cases v) auto

lemma merge_keys_level:
  "distinct_keys cur \<Longrightarrow> apply_recursive payload cur = Inr res \<Longrightarrow>
   walk cur path = Inr (PDict d) \<Longrightarrow> keys_at res path \<subseteq> set (map fst d)"
proof (induction path arbitrary: cur payload res d)
  case Nil
  then show ?case using apply_items_keys [of payload d] by (auto simp: keys_at_def)
next
  case (Cons k path)
  from Cons.prems(3) obtain d0 v where cur: "cur = PDict d0" and v: "map_of d0 k = Some v"
    and wv: "walk v path = Inr (PDict d)"
    by (cases cur) (auto split: option.splits sum.splits)
  from wv walk_not_dict [of v path d] obtain dv where dv: "v = PDict dv" by (cases v) auto
  from Cons.prems(1) cur have dist: "distinct (map fst d0)" and di: "distinct_items d0" by auto
  from distinct_items_lookup [OF di v] have dkv: "distinct_keys v" .
  from Cons.prems(2) cur have res: "res = PDict (apply_items payload d0)" by auto
  have m: "map_of (apply_items payload d0) k = map_of (apply_items payload [(k, v)]) k"
    using map_of_apply_items [OF dist, of payload k] v by simp
  show ?case
  proof (cases "truthy (is_writable dv)")
    case False
    with m dv res show ?thesis by (simp add: keys_at_def)
  next
    case True
    show ?thesis
    proof (cases "subscript payload k")
      case (Inl e)
      with True m dv res wv show ?thesis by (simp add: keys_at_def)
    next
      case (Inr nd)
      obtain r where r: "apply_recursive nd v = Inr r" using dv by auto
      from Cons.IH [OF dkv r wv] have "keys_at r path \<subseteq> set (map fst d)" .
      with True m dv res Inr r show ?thesis by (simp add: keys_at_def)
    qed
  qed
qed

text \<open>Merging a tree with itself, by induction on the calls of the merge.\<close>

lemma merge_self:
  "(new_data = cur \<longrightarrow> distinct_keys cur \<longrightarrow> writable_below cur \<longrightarrow> is_dict cur \<longrightarrow>
      apply_recursive new_data cur = Inr cur)"
  "(\<forall>full. new_data = PDict full \<longrightarrow> (\<forall>kv \<in> set kvs. map_of full (fst kv) = Some (snd kv)) \<longrightarrow>
      distinct_items kvs \<longrightarrow> writable_items kvs \<longrightarrow> apply_items new_data kvs = kvs)"
proof (induction new_data cur and new_data kvs rule: apply_recursive_apply_items.induct)
  case (1 new_data kvs)
  then show ?case by (auto simp: map_of_eq_Some_iff)
qed auto

lemma set_walk_read_only:
  "lookup_path c path = Some (PDict d) \<Longrightarrow> map_of d pname = Some (PDict leaf) \<Longrightarrow>
   \<not> truthy (is_writable leaf) \<Longrightarrow>
   set_walk path pn pname v c = (c, Some (ReadOnly pn))"
proof (induction path arbitrary: c)
  case Nil
  then show ?case by simp
next
  case (Cons item path)
  show ?case
  proof (cases "item = []")
    case True
    with Cons show ?thesis by simp
  next
    case False
    with Cons.prems(1) obtain d0 sub where c: "c = PDict d0" and sub: "map_of d0 item = Some sub"
      and lp: "lookup_path sub path = Some (PDict d)"
      by (auto split: pyval.splits option.splits)
    from Cons.IH [OF lp Cons.prems(2,3)]
    have "set_walk path pn pname v sub = (sub, Some (ReadOnly pn))" .
    with False c sub show ?thesis by (simp add: dict_set_same)
  qed
qed

section \<open>Lemmas on single-path writes, saving and notification\<close>

text \<open>Where the writable test rejects the node that \<^verbatim>\<open>set_param\<close> finds, the exception is
  caught inside \<^verbatim>\<open>set_param\<close> and printed; nothing is saved and the store is as before.\<close>

lemma set_param_rejected:
  assumes "existing_node (cfg s) param_name = Some (PDict leaf)"
    and "\<not> truthy (is_writable leaf)"
  shows "set_param s w param_name value = (s, emit [Printed (ReadOnly param_name)] w)"
proof -
  from assms(1) obtain d
    where lp: "lookup_path (cfg s) (str_split (dirname param_name)) = Some (PDict d)"
      and leaf: "map_of d (basename param_name) = Some (PDict leaf)"
    by (auto simp: existing_node_def split: option.splits pyval.splits)
  from set_walk_read_only [OF lp leaf assms(2)]
  show ?thesis by (simp add: set_param_def)
qed

lemma save_raises:
  "snd (save s w) =
     (if \<not> can_open_w w (filename s)
         \<or> (\<not> dump_raises w (cfg s) \<and> (\<not> can_write w (filename s) \<or> \<not> can_close w (filename s)))
      then Some IOError else None)"
  by (simp add: save_def Let_def)

lemma save_emit [simp]: "snd (save s (emit es w)) = snd (save s w)"
  by (simp add: save_raises emit_def)

lemma files_save_emit [simp]: "files (fst (save s (emit es w))) = files (fst (save s w))"
  by (simp add: save_def Let_def emit_def)

lemma called_append [simp]: "called (xs @ ys) = called xs @ called ys"
  by (induction xs rule: called.induct) auto

lemma called_map_Called [simp]: "called (map (\<lambda>cb. Called cb c) cbs) = cbs"
  by (induction cbs) auto

lemma called_save [simp]: "called (events (fst (save s w))) = called (events w)"
  by (simp add: save_def Let_def emit_def)

lemma called_param_prints [simp]: "called (param_prints s n e) = []"
  by (simp add: param_prints_def split: sum.splits)

lemma called_emit [simp]: "called (events (emit es w)) = called (events w) @ called es"
  by (simp add: emit_def)

lemma reload_called:
  "called (events (fst (snd (reload s w)))) =
     (if snd (snd (reload s w)) = None then called (events w) @ reload_callbacks s
      else called (events w))"
  by (simp add: reload_def notify_reload_callbacks_def split: option.splits yaml_text.splits)

lemma reload_callbacks_reload: "reload_callbacks (fst (reload s w)) = reload_callbacks s"
  by (simp add: reload_def split: option.splits yaml_text.splits)

text \<open>The store that \<^verbatim>\<open>apply\<close> leaves once the merge has returned, and how \<^verbatim>\<open>apply\<close>
  ends: with what \<^verbatim>\<open>save\<close> raises, after notifying the listeners if it raises nothing.\<close>

lemma apply_yaml_merged:
  assumes "apply_recursive new_data (cfg s) = Inr merged"
  shows "fst (apply_yaml s w (Parses new_data)) =
           s\<lparr>cfg := (if truthy (param (s\<lparr>cfg := merged\<rparr>) ''global/reset'' (PBool False) True)
                      then default_cfg (LOG_PATH w) s else merged)\<rparr>"
    and "snd (snd (apply_yaml s w (Parses new_data))) = snd (save (fst (apply_yaml s w (Parses new_data))) w)"
    and "called (events (fst (snd (apply_yaml s w (Parses new_data))))) =
           (if snd (snd (apply_yaml s w (Parses new_data))) = None
            then called (events w) @ reload_callbacks s else called (events w))"
    and "files (fst (snd (apply_yaml s w (Parses new_data))))
           = files (fst (save (fst (apply_yaml s w (Parses new_data))) w))"
proof -
  let ?f = "if truthy (param (s\<lparr>cfg := merged\<rparr>) ''global/reset'' (PBool False) True)
            then default_cfg (LOG_PATH w) s else merged"
  let ?w2 = "emit [if truthy (param (s\<lparr>cfg := merged\<rparr>) ''global/reset'' (PBool False) True)
                   then Log_reset else Log_applied]
              (emit (param_prints (s\<lparr>cfg := merged\<rparr>) ''global/reset'' True) w)"
  have unf: "apply_yaml s w (Parses new_data) =
      (case save (s\<lparr>cfg := ?f\<rparr>) ?w2 of
         (w3, Some e) \<Rightarrow> (s\<lparr>cfg := ?f\<rparr>, w3, Some e)
       | (w3, None) \<Rightarrow> (s\<lparr>cfg := ?f\<rparr>, notify_reload_callbacks (s\<lparr>cfg := ?f\<rparr>) w3, None))"
    using assms by (simp add: apply_yaml_def Let_def)
  show a: "fst (apply_yaml s w (Parses new_data)) = s\<lparr>cfg := ?f\<rparr>"
    unfolding unf by (simp split: prod.splits option.splits)
  have sv: "snd (save (s\<lparr>cfg := ?f\<rparr>) ?w2) = snd (save (s\<lparr>cfg := ?f\<rparr>) w)" by simp
  show b: "snd (snd (apply_yaml s w (Parses new_data))) = snd (save (fst (apply_yaml s w (Parses new_data))) w)"
    unfolding a sv [symmetric] unfolding unf
    by (cases "save (s\<lparr>cfg := ?f\<rparr>) ?w2") (auto split: option.splits)
  have cs: "called (events (fst (save (s\<lparr>cfg := ?f\<rparr>) ?w2))) = called (events w)" by simp
  show "called (events (fst (snd (apply_yaml s w (Parses new_data))))) =
           (if snd (snd (apply_yaml s w (Parses new_data))) = None
            then called (events w) @ reload_callbacks s else called (events w))"
    unfolding unf using cs
    by (cases "save (s\<lparr>cfg := ?f\<rparr>) ?w2")
       (auto simp: notify_reload_callbacks_def split: option.splits)
  have fs: "files (fst (save (s\<lparr>cfg := ?f\<rparr>) ?w2)) = files (fst (save (s\<lparr>cfg := ?f\<rparr>) w))"
    by simp
  show "files (fst (snd (apply_yaml s w (Parses new_data))))
           = files (fst (save (fst (apply_yaml s w (Parses new_data))) w))"
    unfolding a fs [symmetric] unfolding unf
    by (cases "save (s\<lparr>cfg := ?f\<rparr>) ?w2")
       (auto simp: notify_reload_callbacks_def emit_def split: option.splits)
qed

lemma apply_yaml_called:
  "called (events (fst (snd (apply_yaml s w data)))) =
     (if snd (snd (apply_yaml s w data)) = None
      then called (events w) @ reload_callbacks s else called (events w))"
proof (cases data)
  case (Parses new_data)
  show ?thesis
  proof (cases "apply_recursive new_data (cfg s)")
    case (Inl e)
    with Parses show ?thesis by (simp add: apply_yaml_def)
  next
    case (Inr merged)
    from apply_yaml_merged(3) [OF Inr, of w] Parses show ?thesis by simp
  qed
qed (simp_all add: apply_yaml_def)

lemma apply_yaml_callbacks:
  "reload_callbacks (fst (apply_yaml s w data)) = reload_callbacks s"
  by (auto simp: apply_yaml_def Let_def split: yaml_text.splits sum.splits prod.splits option.splits)

lemma count_list_distinct: "distinct xs \<Longrightarrow> x \<in> set xs \<Longrightarrow> count_list xs x = 1"
  by (induction xs) (auto simp: count_list_0_iff)

lemma add_reload_listener_distinct:
  "distinct (reload_callbacks s) \<Longrightarrow>
   distinct (reload_callbacks (fst (add_reload_listener s w callback call)))"
  by (simp add: add_reload_listener_def)

section \<open>Read-only parameters\<close>

text \<open>
  Claim C1 says that \<^verbatim>\<open>set_param\<close> on a leaf marked read-only fails with a read-only
  error signalled to the caller and leaves the tree unchanged. The code at the default
  tree: \<^verbatim>\<open>global/version\<close> is the leaf \<^verbatim>\<open>{':value': '1.0', ':ro': True}\<close>, and
  \<^verbatim>\<open>set_param('global/version', 'x')\<close> stores \<^verbatim>\<open>'x'\<close> in it, writes the changed tree to
  the file and prints no error.
\<close>

theorem set_param_overwrites_read_only_leaf:
  "existing_node (cfg s_default) ''global/version''
     = Some (PDict [('':value'', PStr ''1.0''), ('':ro'', PBool True)])
   \<and> param (fst (set_param s_default w_ok ''global/version'' (PStr ''x'')))
        ''global/version'' (PStr []) True = PStr ''x''
   \<and> cfg (fst (set_param s_default w_ok ''global/version'' (PStr ''x''))) \<noteq> cfg s_default
   \<and> events (snd (set_param s_default w_ok ''global/version'' (PStr ''x''))) = [Log_saved]
   \<and> files (snd (set_param s_default w_ok ''global/version'' (PStr ''x''))) ''nmd.yaml''
       = Some (Parses (cfg (fst (set_param s_default w_ok ''global/version'' (PStr ''x'')))))"
  by (simp add: existing_node_def set_param_def s_default_def s_init_def w_ok_def default_cfg_def
      dirname_def basename_def is_writable_def save_def emit_def param_def param_try_def)

text \<open>
  Claim C2 says that no merge and no single-path set changes the value of a leaf marked
  \<^verbatim>\<open>':ro': True\<close>. The code at the default tree: \<^verbatim>\<open>global/version\<close> holds
  \<^verbatim>\<open>{':value': '1.0', ':ro': True}\<close>; after \<^verbatim>\<open>apply\<close> of the payload
  \<^verbatim>\<open>{global: {version: x}}\<close> its value is \<^verbatim>\<open>'x'\<close>, and after
  \<^verbatim>\<open>set_param('global/version', 'y')\<close> it is \<^verbatim>\<open>'y'\<close>.
\<close>

theorem read_only_leaf_overwritten:
  "param s_default ''global/version'' (PStr []) True = PStr ''1.0''
   \<and> param s_default ''global/version'' PNone False
       = PDict [('':value'', PStr ''1.0''), ('':ro'', PBool True)]
   \<and> param (fst (apply_yaml s_default w_ok
         (Parses (PDict [(''global'', PDict [(''version'', PStr ''x'')])]))))
       ''global/version'' (PStr []) True = PStr ''x''
   \<and> param (fst (set_param s_default w_ok ''global/version'' (PStr ''y'')))
       ''global/version'' (PStr []) True = PStr ''y''"
  by (simp add: apply_yaml_def set_param_def s_default_def s_init_def w_ok_def default_cfg_def
      dirname_def basename_def is_writable_def marker_keys_def save_def emit_def param_def
      param_try_def param_prints_def notify_reload_callbacks_def Let_def)

section \<open>The merge\<close>

text \<open>
  Claim C3 says that a group that is not writable is kept unchanged in the merge result.
  The code on a current tree with such a group under \<^verbatim>\<open>a\<close> and a scalar under \<^verbatim>\<open>b\<close>:
  the group that \<^verbatim>\<open>_is_writable\<close> rejects (\<^verbatim>\<open>':ro': False\<close>) is missing from the
  result, and the group marked \<^verbatim>\<open>':ro': True\<close> is descended into and rewritten.
\<close>

theorem merge_drops_rejected_group:
  "\<not> truthy (is_writable [('':value'', PInt 1), ('':ro'', PBool False)])
   \<and> apply_recursive (PDict [(''a'', PDict [('':value'', PInt 2)]), (''b'', PInt 5)])
        (PDict [(''a'', PDict [('':value'', PInt 1), ('':ro'', PBool False)]), (''b'', PInt 5)])
       = Inr (PDict [(''b'', PInt 5)])
   \<and> apply_recursive (PDict [(''a'', PDict [('':value'', PInt 2)]), (''b'', PInt 5)])
        (PDict [(''a'', PDict [('':value'', PInt 1), ('':ro'', PBool True)]), (''b'', PInt 5)])
       = Inr (PDict [(''a'', PDict [('':value'', PInt 2), ('':ro'', PBool True)]), (''b'', PInt 5)])"
  by (simp add: is_writable_def marker_keys_def)

text \<open>
  Claim C5, as the code has it. At every level where the current tree holds a
  dictionary, the merge result has no key that the current dictionary lacks: a key that
  only the payload has at that level is ignored. Under a key that is no marker and whose
  current value is no dictionary, the result of every call of the merge holds the
  payload's value for that key when the payload of the call is a dictionary with that
  key, whatever that value is; the old value when the payload is a dictionary without
  that key; and the whole payload of the call when that payload is no dictionary. (The
  current tree is a tree of Python dictionaries, each key once.)
\<close>

theorem merge_keys_within_current:
  "(distinct_keys cur \<and> apply_recursive payload cur = Inr res \<and> walk cur path = Inr (PDict d) \<longrightarrow>
      keys_at res path \<subseteq> keys_at cur path)
   \<and> (distinct (map fst kvs) \<and> map_of kvs key = Some old \<and> \<not> is_dict old
       \<and> key \<notin> set marker_keys \<longrightarrow>
      map_of (apply_items new_data kvs) key =
        Some (if is_dict new_data
              then (case subscript new_data key of Inr x \<Rightarrow> x | Inl e \<Rightarrow> old)
              else new_data))"
proof -
  have a: "keys_at res path \<subseteq> keys_at cur path"
    if "distinct_keys cur" and "apply_recursive payload cur = Inr res"
      and "walk cur path = Inr (PDict d)"
    using merge_keys_level [OF that] that(3) by (simp add: keys_at_def)
  have b: "map_of (apply_items new_data kvs) key =
        Some (if is_dict new_data
              then (case subscript new_data key of Inr x \<Rightarrow> x | Inl e \<Rightarrow> old)
              else new_data)"
    if dist: "distinct (map fst kvs)" and m: "map_of kvs key = Some old" and nd: "\<not> is_dict old"
      and nm: "key \<notin> set marker_keys"
  proof -
    have "apply_items new_data [(key, old)] =
        [(key, if is_dict new_data
               then (case subscript new_data key of Inr x \<Rightarrow> x | Inl e \<Rightarrow> old)
               else new_data)]"
      using nd nm by (cases old) (auto split: sum.splits)
    with map_of_apply_items [OF dist, of new_data key] m show ?thesis by simp
  qed
  from a b show ?thesis by blast
qed

theorem merge_keys_within_current_witness:
  "distinct_keys (cfg s_default)
   \<and> apply_recursive
        (PDict [(''sysmon'', PDict [(''CPU'',
           PDict [(''extra'', PInt 1), (''load_warn_level'', PFloat (1 / 2))])])])
        (cfg s_default)
       = Inr (replace_at [''sysmon'', ''CPU'', ''load_warn_level''] (PFloat (1 / 2)) (cfg s_default))
   \<and> walk (cfg s_default) [''sysmon'', ''CPU'']
       = Inr (PDict [(''load_warn_level'', PFloat (9 / 10))])
   \<and> keys_at (replace_at [''sysmon'', ''CPU'', ''load_warn_level''] (PFloat (1 / 2)) (cfg s_default))
        [''sysmon'', ''CPU'']
       \<subseteq> keys_at (cfg s_default) [''sysmon'', ''CPU'']
   \<and> ''extra'' \<notin> keys_at (cfg s_default) [''sysmon'', ''CPU'']
   \<and> map_of (apply_items (PDict [(''a'', PDict [(''b'', PInt 2)])]) [(''a'', PInt 1), (''c'', PInt 3)]) ''a''
       = Some (PDict [(''b'', PInt 2)])
   \<and> map_of (apply_items (PDict [(''a'', PDict [(''b'', PInt 2)])]) [(''a'', PInt 1), (''c'', PInt 3)]) ''c''
       = Some (PInt 3)
   \<and> map_of (apply_items (PStr ''z'') [(''a'', PInt 1), (''c'', PInt 3)]) ''a'' = Some (PStr ''z'')"
proof -
  have a: "distinct_keys (cfg s_default)"
    by (simp add: s_default_def s_init_def default_cfg_def)
  have b: "apply_recursive
        (PDict [(''sysmon'', PDict [(''CPU'',
           PDict [(''extra'', PInt 1), (''load_warn_level'', PFloat (1 / 2))])])])
        (cfg s_default)
       = Inr (replace_at [''sysmon'', ''CPU'', ''load_warn_level''] (PFloat (1 / 2)) (cfg s_default))"
    by (simp add: s_default_def s_init_def default_cfg_def is_writable_def marker_keys_def)
  have c: "walk (cfg s_default) [''sysmon'', ''CPU'']
      = Inr (PDict [(''load_warn_level'', PFloat (9 / 10))])"
    by (simp add: s_default_def s_init_def default_cfg_def)
  have d: "''extra'' \<notin> keys_at (cfg s_default) [''sysmon'', ''CPU'']"
    unfolding keys_at_def c by simp
  have h1: "distinct (map fst [(''a'', PInt 1), (''c'', PInt 3)])
      \<and> map_of [(''a'', PInt 1), (''c'', PInt 3)] ''a'' = Some (PInt 1) \<and> \<not> is_dict (PInt 1)
      \<and> ''a'' \<notin> set marker_keys"
    by (simp add: marker_keys_def)
  have h2: "distinct (map fst [(''a'', PInt 1), (''c'', PInt 3)])
      \<and> map_of [(''a'', PInt 1), (''c'', PInt 3)] ''c'' = Some (PInt 3) \<and> \<not> is_dict (PInt 3)
      \<and> ''c'' \<notin> set marker_keys"
    by (simp add: marker_keys_def)
  have k1: "keys_at (replace_at [''sysmon'', ''CPU'', ''load_warn_level''] (PFloat (1 / 2)) (cfg s_default))
        [''sysmon'', ''CPU''] \<subseteq> keys_at (cfg s_default) [''sysmon'', ''CPU'']"
    using merge_keys_within_current
      [where cur = "cfg s_default" and res = "replace_at [''sysmon'', ''CPU'', ''load_warn_level''] (PFloat (1 / 2)) (cfg s_default)"
         and path = "[''sysmon'', ''CPU'']" and d = "[(''load_warn_level'', PFloat (9 / 10))]"
         and payload = "PDict [(''sysmon'', PDict [(''CPU'',
           PDict [(''extra'', PInt 1), (''load_warn_level'', PFloat (1 / 2))])])]"] a b c
    by blast
  have k2: "map_of (apply_items (PDict [(''a'', PDict [(''b'', PInt 2)])]) [(''a'', PInt 1), (''c'', PInt 3)]) ''a''
       = Some (PDict [(''b'', PInt 2)])"
    using merge_keys_within_current
      [where kvs = "[(''a'', PInt 1), (''c'', PInt 3)]" and key = "''a''" and old = "PInt 1"
         and new_data = "PDict [(''a'', PDict [(''b'', PInt 2)])]"] h1
    by simp
  have k3: "map_of (apply_items (PDict [(''a'', PDict [(''b'', PInt 2)])]) [(''a'', PInt 1), (''c'', PInt 3)]) ''c''
       = Some (PInt 3)"
    using merge_keys_within_current
      [where kvs = "[(''a'', PInt 1), (''c'', PInt 3)]" and key = "''c''" and old = "PInt 3"
         and new_data = "PDict [(''a'', PDict [(''b'', PInt 2)])]"] h2
    by simp
  have k4: "map_of (apply_items (PStr ''z'') [(''a'', PInt 1), (''c'', PInt 3)]) ''a'' = Some (PStr ''z'')"
    using merge_keys_within_current
      [where kvs = "[(''a'', PInt 1), (''c'', PInt 3)]" and key = "''a''" and old = "PInt 1"
         and new_data = "PStr ''z''"] h1
    by simp
  from a b c d k1 k2 k3 k4 show ?thesis by blast
qed

text \<open>
  Claim C5 as stated fails where the current tree holds a value that is no dictionary:
  the payload's value for that key is installed as it is. With the current tree
  \<^verbatim>\<open>{a: 1}\<close> and the payload \<^verbatim>\<open>{a: {b: 2}}\<close> the result is \<^verbatim>\<open>{a: {b: 2}}\<close>: the key
  \<^verbatim>\<open>b\<close>, which the payload has at level \<^verbatim>\<open>a\<close> and the current tree has nowhere, is in
  the result. The same happens on the default tree under the bare scalar
  \<^verbatim>\<open>global/only_diagnostics_agg\<close>.
\<close>

theorem merge_new_key_counterexample:
  "apply_recursive (PDict [(''a'', PDict [(''b'', PInt 2)])]) (PDict [(''a'', PInt 1)])
     = Inr (PDict [(''a'', PDict [(''b'', PInt 2)])])
   \<and> ''b'' \<in> keys_at (PDict [(''a'', PDict [(''b'', PInt 2)])]) [''a'']
   \<and> ''b'' \<notin> keys_at (PDict [(''a'', PInt 1)]) [''a'']
   \<and> ''b'' \<notin> keys_at (PDict [(''a'', PInt 1)]) []
   \<and> apply_recursive
        (PDict [(''global'', PDict [(''only_diagnostics_agg'', PDict [(''b'', PInt 2)])])])
        (cfg s_default)
       = Inr (replace_at [''global'', ''only_diagnostics_agg''] (PDict [(''b'', PInt 2)])
               (cfg s_default))
   \<and> ''b'' \<notin> keys_at (cfg s_default) [''global'', ''only_diagnostics_agg'']
   \<and> ''b'' \<in> keys_at (replace_at [''global'', ''only_diagnostics_agg''] (PDict [(''b'', PInt 2)])
               (cfg s_default)) [''global'', ''only_diagnostics_agg'']"
  by (simp add: keys_at_def marker_keys_def is_writable_def s_default_def s_init_def
      default_cfg_def)

text \<open>
  Claim C6 says that a key of the current tree that is missing from the incoming data
  keeps its old value, and that a payload setting only \<^verbatim>\<open>global/grpc_timeout\<close> leaves
  every other existing parameter as it was. The code on the default store after
  \<^verbatim>\<open>set_param('global/version/:ro', False)\<close>: \<^verbatim>\<open>global/version\<close> is then the dictionary
  \<^verbatim>\<open>{':value': '1.0', ':ro': False}\<close>, the payload \<^verbatim>\<open>{global: {grpc_timeout: 99.0}}\<close> has
  no key \<^verbatim>\<open>version\<close>, and after \<^verbatim>\<open>apply\<close> of it \<^verbatim>\<open>global/grpc_timeout\<close> is 99.0 and
  \<^verbatim>\<open>global/version\<close> is gone from the tree.
\<close>

theorem merge_drops_parameter_missing_from_payload:
  "param s_version_unlocked ''global/version'' PNone False
     = PDict [('':value'', PStr ''1.0''), ('':ro'', PBool False)]
   \<and> subscript (PDict [(''grpc_timeout'', PFloat 99)]) ''version'' = Inl (KeyError ''version'')
   \<and> snd (snd (apply_yaml s_version_unlocked w_ok (Parses (timeout_payload (PFloat 99))))) = None
   \<and> param (fst (apply_yaml s_version_unlocked w_ok (Parses (timeout_payload (PFloat 99)))))
        ''global/grpc_timeout'' PNone True = PFloat 99
   \<and> param (fst (apply_yaml s_version_unlocked w_ok (Parses (timeout_payload (PFloat 99)))))
        ''global/version'' PNone False = PNone
   \<and> ''version'' \<in> keys_at (cfg s_version_unlocked) [''global'']
   \<and> ''version'' \<notin> keys_at
        (cfg (fst (apply_yaml s_version_unlocked w_ok (Parses (timeout_payload (PFloat 99))))))
        [''global'']"
  by (simp add: s_version_unlocked_def set_param_def apply_yaml_def timeout_payload_def
      s_default_def s_init_def w_ok_def default_cfg_def dirname_def basename_def is_writable_def
      marker_keys_def save_def emit_def param_def param_try_def param_prints_def
      notify_reload_callbacks_def keys_at_def Let_def)

text \<open>
  Claim C8, as the code has it by design. Applying a payload equal to the current tree's
  own serialization leaves the store unchanged when the tree's \<^verbatim>\<open>global/reset\<close> does not
  evaluate to true and every dictionary the merge meets below the root passes the
  \<^verbatim>\<open>_is_writable\<close> test. (The tree is a tree of Python dictionaries, each key once.)
\<close>

theorem apply_own_serialization:
  assumes "distinct_keys (cfg s)" and "writable_below (cfg s)"
    and "\<not> truthy (param s ''global/reset'' (PBool False) True)"
  shows "fst (apply_yaml s w (Parses (cfg s))) = s"
proof (cases "is_dict (cfg s)")
  case True
  with merge_self(1) [of "cfg s" "cfg s"] assms(1,2)
  have m: "apply_recursive (cfg s) (cfg s) = Inr (cfg s)" by simp
  have "s\<lparr>cfg := cfg s\<rparr> = s" by simp
  with m assms(3) show ?thesis
    by (simp add: apply_yaml_def Let_def split: prod.splits option.splits)
next
  case False
  then have "\<exists>e. apply_recursive (cfg s) (cfg s) = Inl e" by (cases "cfg s") auto
  then show ?thesis by (auto simp: apply_yaml_def)
qed

theorem apply_own_serialization_witness:
  "distinct_keys (cfg s_default) \<and> writable_below (cfg s_default)
   \<and> \<not> truthy (param s_default ''global/reset'' (PBool False) True)
   \<and> fst (apply_yaml s_default w_ok (Parses (cfg s_default))) = s_default"
proof -
  have a: "distinct_keys (cfg s_default)"
    by (simp add: s_default_def s_init_def default_cfg_def)
  have b: "writable_below (cfg s_default)"
    by (simp add: s_default_def s_init_def default_cfg_def is_writable_def)
  have c: "\<not> truthy (param s_default ''global/reset'' (PBool False) True)"
    by (simp add: s_default_def s_init_def default_cfg_def param_def param_try_def)
  from apply_own_serialization [OF a b c] a b c show ?thesis by simp
qed

text \<open>
  Claim C8 as stated fails on a tree whose \<^verbatim>\<open>global/reset\<close> is true (as
  \<^verbatim>\<open>set_param('global/reset', True)\<close> leaves it): the merge of the tree with itself
  gives the tree back, the reset check then replaces it by the default tree.
\<close>

theorem apply_own_serialization_counterexample:
  "distinct_keys (cfg s_reset) \<and> writable_below (cfg s_reset)
   \<and> cfg (fst (apply_yaml s_reset w_ok (Parses (cfg s_reset)))) = default_cfg ''/log/'' s_reset
   \<and> cfg (fst (apply_yaml s_reset w_ok (Parses (cfg s_reset)))) \<noteq> cfg s_reset"
  by (simp add: s_reset_def s_init_def apply_yaml_def Let_def marker_keys_def is_writable_def param_def
      param_try_def w_ok_def default_cfg_def save_def emit_def notify_reload_callbacks_def)

section \<open>Reset\<close>

text \<open>
  Claim C4, as the code has it by design. Whenever the merged tree's \<^verbatim>\<open>global/reset\<close>
  evaluates to true, \<^verbatim>\<open>apply\<close> leaves the store with the built-in default tree, in which
  \<^verbatim>\<open>global/reset\<close> is \<^verbatim>\<open>False\<close>, whatever else the payload held, and calls \<^verbatim>\<open>save\<close> on
  it: the file is left as that \<^verbatim>\<open>save\<close> leaves it and \<^verbatim>\<open>apply\<close> ends as that \<^verbatim>\<open>save\<close>
  ends. If \<^verbatim>\<open>save\<close> raises nothing, every listener
  is then called, in subscription order. If \<^verbatim>\<open>save\<close> raises, it raises an I/O error,
  which leaves \<^verbatim>\<open>apply\<close>, and no listener is called. When the file can be opened, the
  tree dumped, and the file written and closed, the file holds the default tree and the
  listeners are called with it after the save.
\<close>

theorem apply_reset_installs_default:
  assumes "apply_recursive new_data (cfg s) = Inr merged"
    and "truthy (param (s\<lparr>cfg := merged\<rparr>) ''global/reset'' (PBool False) True)"
  shows "fst (apply_yaml s w (Parses new_data)) = s\<lparr>cfg := default_cfg (LOG_PATH w) s\<rparr>
    \<and> param (s\<lparr>cfg := default_cfg (LOG_PATH w) s\<rparr>) ''global/reset'' (PBool True) True = PBool False
    \<and> snd (snd (apply_yaml s w (Parses new_data)))
        = snd (save (s\<lparr>cfg := default_cfg (LOG_PATH w) s\<rparr>) w)
    \<and> files (fst (snd (apply_yaml s w (Parses new_data))))
        = files (fst (save (s\<lparr>cfg := default_cfg (LOG_PATH w) s\<rparr>) w))
    \<and> (snd (save (s\<lparr>cfg := default_cfg (LOG_PATH w) s\<rparr>) w) = None \<longrightarrow>
       called (events (fst (snd (apply_yaml s w (Parses new_data)))))
         = called (events w) @ reload_callbacks s)
    \<and> (snd (save (s\<lparr>cfg := default_cfg (LOG_PATH w) s\<rparr>) w) \<noteq> None \<longrightarrow>
       snd (snd (apply_yaml s w (Parses new_data))) = Some IOError
       \<and> called (events (fst (snd (apply_yaml s w (Parses new_data))))) = called (events w))
    \<and> (can_open_w w (filename s) \<and> \<not> dump_raises w (default_cfg (LOG_PATH w) s)
         \<and> can_write w (filename s) \<and> can_close w (filename s) \<longrightarrow>
       apply_yaml s w (Parses new_data) =
         (s\<lparr>cfg := default_cfg (LOG_PATH w) s\<rparr>,
          w\<lparr>files := (files w)(filename s \<mapsto> Parses (default_cfg (LOG_PATH w) s)),
            events := events w @ [Log_reset, Log_saved]
               @ map (\<lambda>callback. Called callback (default_cfg (LOG_PATH w) s)) (reload_callbacks s)\<rparr>,
          None))"
proof -
  let ?D = "default_cfg (LOG_PATH w) s"
  from assms(2) have pp: "param_prints (s\<lparr>cfg := merged\<rparr>) ''global/reset'' True = []"
    by (auto simp: param_def param_prints_def split: sum.splits)
  have a: "fst (apply_yaml s w (Parses new_data)) = s\<lparr>cfg := ?D\<rparr>"
    using apply_yaml_merged(1) [OF assms(1), of w] assms(2) by simp
  have b: "param (s\<lparr>cfg := ?D\<rparr>) ''global/reset'' (PBool True) True = PBool False"
    by (simp add: default_cfg_def param_def param_try_def)
  have o: "snd (snd (apply_yaml s w (Parses new_data))) = snd (save (s\<lparr>cfg := ?D\<rparr>) w)"
    using apply_yaml_merged(2) [OF assms(1), of w] a by simp
  have c: "called (events (fst (snd (apply_yaml s w (Parses new_data))))) =
           (if snd (save (s\<lparr>cfg := ?D\<rparr>) w) = None
            then called (events w) @ reload_callbacks s else called (events w))"
    using apply_yaml_merged(3) [OF assms(1), of w] o by simp
  have fl: "files (fst (snd (apply_yaml s w (Parses new_data)))) = files (fst (save (s\<lparr>cfg := ?D\<rparr>) w))"
    using apply_yaml_merged(4) [OF assms(1), of w] a by simp
  have io: "snd (save (s\<lparr>cfg := ?D\<rparr>) w) \<noteq> None \<longrightarrow> snd (save (s\<lparr>cfg := ?D\<rparr>) w) = Some IOError"
    by (simp add: save_raises)
  have f: "can_open_w w (filename s) \<and> \<not> dump_raises w ?D
         \<and> can_write w (filename s) \<and> can_close w (filename s) \<longrightarrow>
       apply_yaml s w (Parses new_data) =
         (s\<lparr>cfg := ?D\<rparr>,
          w\<lparr>files := (files w)(filename s \<mapsto> Parses ?D),
            events := events w @ [Log_reset, Log_saved]
               @ map (\<lambda>callback. Called callback ?D) (reload_callbacks s)\<rparr>,
          None)"
    using assms pp
    by (simp add: apply_yaml_def Let_def save_def emit_def notify_reload_callbacks_def)
  from a b o fl c io f show ?thesis by simp
qed

theorem apply_reset_installs_default_witness:
  "apply_recursive reset_payload (cfg s_two) = Inr reset_merged
   \<and> truthy (param (s_two\<lparr>cfg := reset_merged\<rparr>) ''global/reset'' (PBool False) True)
   \<and> apply_yaml s_two w_ok (Parses reset_payload) =
       (s_two, w_ok\<lparr>files := [''nmd.yaml'' \<mapsto> Parses (cfg s_default)],
                   events := [Log_reset, Log_saved, Called 7 (cfg s_default)]\<rparr>, None)
   \<and> fst (apply_yaml s_two w_close_fails (Parses reset_payload)) = s_two
   \<and> snd (snd (apply_yaml s_two w_close_fails (Parses reset_payload))) = Some IOError
   \<and> called (events (fst (snd (apply_yaml s_two w_close_fails (Parses reset_payload))))) = []"
proof -
  have a: "apply_recursive reset_payload (cfg s_two) = Inr reset_merged"
    by (simp add: reset_payload_def reset_merged_def s_two_def s_default_def s_init_def
        default_cfg_def is_writable_def marker_keys_def)
  have b: "truthy (param (s_two\<lparr>cfg := reset_merged\<rparr>) ''global/reset'' (PBool False) True)"
    by (simp add: reset_merged_def s_default_def s_init_def default_cfg_def param_def param_try_def)
  have env: "can_open_w w_ok (filename s_two) \<and> \<not> dump_raises w_ok (default_cfg (LOG_PATH w_ok) s_two)
      \<and> can_write w_ok (filename s_two) \<and> can_close w_ok (filename s_two)"
    by (simp add: w_ok_def)
  have d: "default_cfg (LOG_PATH w_ok) s_two = cfg s_default"
    "default_cfg (LOG_PATH w_close_fails) s_two = cfg s_default" "cfg s_two = cfg s_default"
    by (simp_all add: w_ok_def w_close_fails_def s_two_def s_default_def s_init_def default_cfg_def)
  have e: "s_two\<lparr>cfg := cfg s_default\<rparr> = s_two"
    by (simp add: s_two_def)
  have sv: "snd (save s_two w_close_fails) = Some IOError" "events w_close_fails = []"
    by (simp_all add: save_raises w_close_fails_def w_ok_def)
  have ok: "apply_yaml s_two w_ok (Parses reset_payload) =
       (s_two, w_ok\<lparr>files := [''nmd.yaml'' \<mapsto> Parses (cfg s_default)],
                   events := [Log_reset, Log_saved, Called 7 (cfg s_default)]\<rparr>, None)"
    using apply_reset_installs_default [OF a b, of w_ok] env unfolding d e
    by (simp add: w_ok_def s_two_def s_default_def s_init_def)
  have bad: "fst (apply_yaml s_two w_close_fails (Parses reset_payload)) = s_two
   \<and> snd (snd (apply_yaml s_two w_close_fails (Parses reset_payload))) = Some IOError
   \<and> called (events (fst (snd (apply_yaml s_two w_close_fails (Parses reset_payload))))) = []"
    using apply_reset_installs_default [OF a b, of w_close_fails] sv unfolding d e
    by simp
  from a b ok bad show ?thesis by blast
qed

text \<open>
  Claim C4 as stated fails when the file cannot be opened for writing: the merged tree
  has \<^verbatim>\<open>global/reset\<close> true and the default tree is installed, but nothing is saved,
  the I/O error leaves \<^verbatim>\<open>apply\<close> and the registered listener 7 is not called.
\<close>

theorem apply_reset_unwritable_counterexample:
  "apply_recursive reset_payload (cfg s_two) = Inr reset_merged
   \<and> truthy (param (s_two\<lparr>cfg := reset_merged\<rparr>) ''global/reset'' (PBool False) True)
   \<and> reload_callbacks s_two = [7]
   \<and> apply_yaml s_two w_unwritable (Parses reset_payload)
       = (s_two, w_unwritable\<lparr>events := [Log_reset]\<rparr>, Some IOError)
   \<and> files (fst (snd (apply_yaml s_two w_unwritable (Parses reset_payload)))) ''nmd.yaml'' = None
   \<and> called (events (fst (snd (apply_yaml s_two w_unwritable (Parses reset_payload))))) = []"
  by (simp add: reset_payload_def reset_merged_def s_two_def s_default_def s_init_def
      default_cfg_def is_writable_def marker_keys_def param_def param_try_def param_prints_def
      apply_yaml_def Let_def save_def emit_def w_unwritable_def w_ok_def)

section \<open>Saving\<close>




section \<open>Listeners and reload\<close>

text \<open>
  Claim C9, as the code has it by design. Registering a callback that is not yet
  registered, with immediate invocation, appends it to the listeners and calls it
  exactly once; registering it again changes nothing and calls nothing. Registration
  keeps the list of listeners free of duplicates, so a listener occurs in it once.
  A reload and an \<^verbatim>\<open>apply\<close> that return without raising call the listeners in
  subscription order; a reload and an \<^verbatim>\<open>apply\<close> that raise call no listener. Both leave
  the list of listeners as it is.
\<close>

theorem reload_listener_called_once:
  "(callback \<notin> set (reload_callbacks s) \<longrightarrow>
      add_reload_listener s w callback True
        = (s\<lparr>reload_callbacks := reload_callbacks s @ [callback]\<rparr>,
           emit [Called callback (cfg s)] w)
      \<and> add_reload_listener (s\<lparr>reload_callbacks := reload_callbacks s @ [callback]\<rparr>)
           (emit [Called callback (cfg s)] w) callback call
        = (s\<lparr>reload_callbacks := reload_callbacks s @ [callback]\<rparr>,
           emit [Called callback (cfg s)] w))
   \<and> (callback \<in> set (reload_callbacks s) \<longrightarrow> add_reload_listener s w callback call = (s, w))
   \<and> (distinct (reload_callbacks s) \<longrightarrow>
        distinct (reload_callbacks (fst (add_reload_listener s w callback call))))
   \<and> (distinct (reload_callbacks s) \<and> callback \<in> set (reload_callbacks s) \<longrightarrow>
        count_list (reload_callbacks s) callback = 1)
   \<and> (snd (snd (reload s w)) = None \<longrightarrow>
        called (events (fst (snd (reload s w)))) = called (events w) @ reload_callbacks s)
   \<and> (snd (snd (reload s w)) \<noteq> None \<longrightarrow>
        called (events (fst (snd (reload s w)))) = called (events w))
   \<and> reload_callbacks (fst (reload s w)) = reload_callbacks s
   \<and> (snd (snd (apply_yaml s w data)) = None \<longrightarrow>
        called (events (fst (snd (apply_yaml s w data)))) = called (events w) @ reload_callbacks s)
   \<and> (snd (snd (apply_yaml s w data)) \<noteq> None \<longrightarrow>
        called (events (fst (snd (apply_yaml s w data)))) = called (events w))
   \<and> reload_callbacks (fst (apply_yaml s w data)) = reload_callbacks s"
proof -
  have a: "callback \<notin> set (reload_callbacks s) \<longrightarrow>
      add_reload_listener s w callback True
        = (s\<lparr>reload_callbacks := reload_callbacks s @ [callback]\<rparr>,
           emit [Called callback (cfg s)] w)
      \<and> add_reload_listener (s\<lparr>reload_callbacks := reload_callbacks s @ [callback]\<rparr>)
           (emit [Called callback (cfg s)] w) callback call
        = (s\<lparr>reload_callbacks := reload_callbacks s @ [callback]\<rparr>,
           emit [Called callback (cfg s)] w)"
    by (simp add: add_reload_listener_def)
  have b: "callback \<in> set (reload_callbacks s) \<longrightarrow> add_reload_listener s w callback call = (s, w)"
    by (simp add: add_reload_listener_def)
  have r: "(snd (snd (reload s w)) = None \<longrightarrow>
        called (events (fst (snd (reload s w)))) = called (events w) @ reload_callbacks s)
      \<and> (snd (snd (reload s w)) \<noteq> None \<longrightarrow>
        called (events (fst (snd (reload s w)))) = called (events w))"
    using reload_called [of s w] by simp
  have ap: "(snd (snd (apply_yaml s w data)) = None \<longrightarrow>
        called (events (fst (snd (apply_yaml s w data)))) = called (events w) @ reload_callbacks s)
      \<and> (snd (snd (apply_yaml s w data)) \<noteq> None \<longrightarrow>
        called (events (fst (snd (apply_yaml s w data)))) = called (events w))"
    using apply_yaml_called [of s w data] by simp
  from a b r ap add_reload_listener_distinct [of s w callback call]
    reload_callbacks_reload [of s w] apply_yaml_callbacks [of s w data]
    count_list_distinct [of "reload_callbacks s" callback]
  show ?thesis by blast
qed

theorem reload_listener_called_once_witness:
  "3 \<notin> set (reload_callbacks s_two)
   \<and> add_reload_listener s_two w_ok 3 True
       = (s_two\<lparr>reload_callbacks := [7, 3]\<rparr>, emit [Called 3 (cfg s_two)] w_ok)
   \<and> add_reload_listener (s_two\<lparr>reload_callbacks := [7, 3]\<rparr>) (emit [Called 3 (cfg s_two)] w_ok) 3 True
       = (s_two\<lparr>reload_callbacks := [7, 3]\<rparr>, emit [Called 3 (cfg s_two)] w_ok)
   \<and> snd (snd (reload (s_two\<lparr>reload_callbacks := [7, 3]\<rparr>) (emit [Called 3 (cfg s_two)] w_ok))) = None
   \<and> called (events (fst (snd (reload (s_two\<lparr>reload_callbacks := [7, 3]\<rparr>)
        (emit [Called 3 (cfg s_two)] w_ok))))) = [3, 7, 3]
   \<and> snd (snd (apply_yaml (s_two\<lparr>reload_callbacks := [7, 3]\<rparr>) w_ok (Parses (PDict [])))) = None
   \<and> called (events (fst (snd (apply_yaml (s_two\<lparr>reload_callbacks := [7, 3]\<rparr>) w_ok (Parses (PDict []))))))
       = [7, 3]
   \<and> snd (snd (reload (s_two\<lparr>reload_callbacks := [7, 3]\<rparr>) w_invalid_file)) \<noteq> None
   \<and> called (events (fst (snd (reload (s_two\<lparr>reload_callbacks := [7, 3]\<rparr>) w_invalid_file)))) = []
   \<and> snd (snd (apply_yaml (s_two\<lparr>reload_callbacks := [7, 3]\<rparr>) w_ok Malformed)) \<noteq> None
   \<and> called (events (fst (snd (apply_yaml (s_two\<lparr>reload_callbacks := [7, 3]\<rparr>) w_ok Malformed)))) = []
   \<and> distinct [7, 3 :: nat] \<and> count_list [7, 3] (3::nat) = 1"
proof -
  let ?s = "s_two\<lparr>reload_callbacks := [7, 3]\<rparr>"
  have a: "3 \<notin> set (reload_callbacks s_two)" "reload_callbacks s_two = [7]"
    by (simp_all add: s_two_def)
  have b: "snd (snd (apply_yaml ?s w_ok (Parses (PDict [])))) = None"
    by (simp add: apply_yaml_def Let_def s_two_def s_default_def s_init_def default_cfg_def
        is_writable_def marker_keys_def param_def param_try_def param_prints_def save_def w_ok_def emit_def)
  have c: "events w_ok = []" "events w_invalid_file = []"
    by (simp_all add: w_ok_def w_invalid_file_def)
  have d: "snd (snd (reload ?s (emit [Called 3 (cfg s_two)] w_ok))) = None"
    by (simp add: reload_def emit_def w_ok_def)
  have e: "snd (snd (reload ?s w_invalid_file)) \<noteq> None"
    by (simp add: reload_def w_invalid_file_def w_ok_def s_two_def s_default_def s_init_def)
  have f: "snd (snd (apply_yaml ?s w_ok Malformed)) \<noteq> None"
    by (simp add: apply_yaml_def)
  from reload_listener_called_once [of 3 s_two w_ok True "Parses (PDict [])"]
    reload_listener_called_once [of 3 ?s "emit [Called 3 (cfg s_two)] w_ok" True "Parses (PDict [])"]
    reload_listener_called_once [of 3 ?s w_ok True "Parses (PDict [])"]
    reload_listener_called_once [of 3 ?s w_invalid_file True "Malformed"]
    reload_listener_called_once [of 3 ?s w_ok True "Malformed"]
    a b c d e f
  show ?thesis by simp
qed

text \<open>
  Claim C9 as stated fails for an \<^verbatim>\<open>apply\<close> that raises. Callback 3 is registered with
  immediate invocation on the default store and called once; the file cannot be opened
  for writing. The following \<^verbatim>\<open>apply\<close> of \<^verbatim>\<open>{global: {grpc_timeout: 99.0}}\<close> installs the
  merged tree, raises the I/O error of \<^verbatim>\<open>save\<close> and does not call the callback again.
\<close>

theorem apply_raises_listener_not_called_counterexample:
  "reload_callbacks s_listening = [3]
   \<and> called (events w_listening) = [3]
   \<and> param s_listening ''global/grpc_timeout'' PNone True = PFloat 15
   \<and> snd (snd (apply_yaml s_listening w_listening (Parses (timeout_payload (PFloat 99))))) = Some IOError
   \<and> param (fst (apply_yaml s_listening w_listening (Parses (timeout_payload (PFloat 99)))))
        ''global/grpc_timeout'' PNone True = PFloat 99
   \<and> called (events (fst (snd (apply_yaml s_listening w_listening (Parses (timeout_payload (PFloat 99)))))))
       = [3]"
  by (simp add: s_listening_def w_listening_def add_reload_listener_def timeout_payload_def
      s_default_def s_init_def default_cfg_def is_writable_def marker_keys_def param_def
      param_try_def param_prints_def apply_yaml_def Let_def save_def emit_def w_unwritable_def w_ok_def)

text \<open>
  Claim C10. When the backing file can be read and its content parses, \<^verbatim>\<open>reload\<close>
  installs the parse result as the tree whatever it is; an empty file parses to the null
  value, which becomes the tree. The default tree is installed when parsing raises a
  YAML error or opening the file raises an I/O error, and only then. In each of these
  cases the listeners are notified afterwards. When \<^verbatim>\<open>yaml.load\<close> raises an exception of
  another class, that exception leaves \<^verbatim>\<open>reload\<close> and the store is as before.
\<close>

theorem reload_installs_parse_result:
  "(files w (filename s) = Some (Parses result) \<longrightarrow>
      reload s w = (s\<lparr>cfg := result\<rparr>,
        emit (Log_loaded # map (\<lambda>callback. Called callback result) (reload_callbacks s)) w, None))
   \<and> (files w (filename s) = Some (Parses PNone) \<longrightarrow> cfg (fst (reload s w)) = PNone)
   \<and> (files w (filename s) = Some Malformed \<longrightarrow>
      reload s w = (s\<lparr>cfg := default_cfg (LOG_PATH w) s\<rparr>,
        emit (Log_use_default YAMLError
              # map (\<lambda>callback. Called callback (default_cfg (LOG_PATH w) s)) (reload_callbacks s)) w,
        None))
   \<and> (files w (filename s) = None \<longrightarrow>
      reload s w = (s\<lparr>cfg := default_cfg (LOG_PATH w) s\<rparr>,
        emit (Log_use_default IOError
              # map (\<lambda>callback. Called callback (default_cfg (LOG_PATH w) s)) (reload_callbacks s)) w,
        None))
   \<and> ((\<exists>e. Log_use_default e \<in> set (drop (length (events w)) (events (fst (snd (reload s w))))))
        = (files w (filename s) = None \<or> files w (filename s) = Some Malformed))
   \<and> (files w (filename s) = Some Invalid_value \<longrightarrow> reload s w = (s, w, Some ValueError))"
proof -
  have d: "(\<exists>e. Log_use_default e \<in> set (drop (length (events w)) (events (fst (snd (reload s w))))))
        = (files w (filename s) = None \<or> files w (filename s) = Some Malformed)"
    by (auto simp: reload_def notify_reload_callbacks_def emit_def
        split: option.splits yaml_text.splits)
  show ?thesis
    by (simp add: d) (simp add: reload_def notify_reload_callbacks_def emit_def)
qed

theorem reload_installs_parse_result_witness:
  "files w_empty_file (filename s_default) = Some (Parses PNone)
   \<and> cfg (fst (reload s_default w_empty_file)) = PNone
   \<and> files w_malformed_file (filename s_default) = Some Malformed
   \<and> cfg (fst (reload s_default w_malformed_file)) = default_cfg ''/log/'' s_default
   \<and> files w_ok (filename s_default) = None
   \<and> cfg (fst (reload s_default w_ok)) = default_cfg ''/log/'' s_default"
proof -
  have a: "files w_empty_file (filename s_default) = Some (Parses PNone)"
    by (simp add: w_empty_file_def s_default_def s_init_def)
  have b: "files w_malformed_file (filename s_default) = Some Malformed"
    by (simp add: w_malformed_file_def s_default_def s_init_def)
  have c: "files w_ok (filename s_default) = None"
    by (simp add: w_ok_def)
  have l: "LOG_PATH w_malformed_file = ''/log/''" "LOG_PATH w_ok = ''/log/''"
    by (simp_all add: w_malformed_file_def w_ok_def)
  from reload_installs_parse_result [of w_empty_file s_default PNone]
    reload_installs_parse_result [of w_malformed_file s_default PNone]
    reload_installs_parse_result [of w_ok s_default PNone] a b c l
  show ?thesis by simp
qed

end
